theory Spec2Isabelle
  imports Complex_Main "HOL-Library.Multiset"
begin

section \<open>Data model\<close>

text \<open>
  The embedding follows the latest variant of the application (\<^verbatim>\<open>App.jsx\<close> with
  \<^verbatim>\<open>utils/api.js\<close> and \<^verbatim>\<open>components/NewTreeForm.jsx\<close>). JavaScript numbers that are only
  copied (latitude, longitude) are \<^typ>\<open>real\<close>; identifiers, pixel coordinates and
  millisecond time stamps are \<^typ>\<open>int\<close>, on which the subtractions and comparisons of
  doubles are exact; a value that may be \<^verbatim>\<open>undefined\<close> or \<^verbatim>\<open>null\<close> is an
  \<^typ>\<open>'a option\<close> with \<^term>\<open>None\<close> for the missing value. An asynchronous handler is
  modelled as one step on the state it starts in: nothing else changes the state
  between its \<^verbatim>\<open>await\<close>s.
\<close>

record properties =
  location_id :: int
  tree_id :: string
  latin_name :: string
  source :: string
  common_name :: string
  is_native :: bool

text \<open>A GeoJSON point feature: \<^verbatim>\<open>geometry.coordinates\<close> is \<^verbatim>\<open>[longitude, latitude]\<close>.\<close>

record feature =
  coordinates :: "real \<times> real"
  properties :: properties

text \<open>The Feature Store is the React state \<^verbatim>\<open>treeLocations\<close>, a GeoJSON feature collection.\<close>

record feature_collection =
  type_name :: string
  features :: "feature list"

text \<open>A row of the backend, as \<^verbatim>\<open>GET /trees\<close> and \<^verbatim>\<open>POST /trees\<close> return it.\<close>

record tree_row =
  row_location_id :: int
  row_tree_id :: string
  row_latin_name :: string
  row_source :: string
  row_common_name :: string
  row_is_native :: bool
  row_latitude :: real
  row_longitude :: real

text \<open>The state of \<^verbatim>\<open>NewTreeForm\<close>; a field the form may leave \<^verbatim>\<open>undefined\<close> is optional.\<close>

record form_state =
  form_common_name :: "string option"
  form_latitude :: real
  form_longitude :: real
  form_is_native :: bool
  form_tree_id :: "string option"
  form_family :: "string option"
  form_latin_name :: "string option"
  form_state_distribution :: "string option"
  form_source :: "string option"

text \<open>The argument object of \<^verbatim>\<open>sendAddLocation\<close>.\<close>

record add_location =
  add_tree_id :: "string option"
  add_latin_name :: "string option"
  add_common_name :: "string option"
  add_latitude :: real
  add_longitude :: real
  add_source :: string
  add_is_native :: bool

datatype error =
    HttpError nat
  | NetworkError
  | JsonError
  | TypeError
  | ClusterLeavesError

text \<open>
  What \<^verbatim>\<open>fetch\<close> does is an input of the model: the promise rejects
  (\<open>FetchFailed\<close>) or resolves to a response with a status code and a body, which
  \<^verbatim>\<open>response.json()\<close> parses or fails to parse (\<^term>\<open>None\<close>).
\<close>

datatype 'a response = FetchFailed | Response nat "'a option"

datatype request =
    PostTrees add_location
  | PutRemove int string

text \<open>\<^verbatim>\<open>lastTapRef.current\<close>: a pixel position \<^verbatim>\<open>{x, y}\<close> and a time in milliseconds.\<close>

record tap =
  tap_point :: "int \<times> int"
  tap_time :: int

text \<open>
  A \<^verbatim>\<open>touchstart\<close> event of the map: its pixel position, its geographic position, the
  clock reading \<^verbatim>\<open>new Date().getTime()\<close> of the handler, and the number of features
  of the layers \<^verbatim>\<open>unclustered-point\<close> and \<^verbatim>\<open>clusters\<close> that
  \<^verbatim>\<open>queryRenderedFeatures\<close> finds at that position.
\<close>

record touch_event =
  point :: "int \<times> int"
  lngLat :: "real \<times> real"
  currentTime :: int
  features_at_point :: nat

text \<open>Values that occur in the legacy \<^verbatim>\<open>["in", key, v1, ...]\<close> layer filters.\<close>

datatype jsval = Str string | Num int

text \<open>
  The map surface as the handlers see it: the results of the two
  \<^verbatim>\<open>queryRenderedFeatures\<close> calls, the leaves \<^verbatim>\<open>getClusterLeaves\<close> reports for a
  cluster id, and the value lists of the filters of the two highlight layers.
\<close>

record map_surface =
  rendered_points :: "feature list"
  rendered_clusters :: "int list"
  cluster_leaves :: "(int \<times> feature list) list"
  highlighted_point :: "jsval list"
  highlighted_cluster :: "jsval list"

text \<open>A member of a group of the visibility summary: the rendered point or the rendered cluster.\<close>

datatype rendered = Point feature | Cluster int

record app =
  treeLocations :: feature_collection
  highlightedTree :: "string option"
  isFormVisible :: bool
  newTreeCoordinates :: "(real \<times> real) option"
  sourceNameRef :: "string option"
  lastTapRef :: tap
  popup_open :: bool
  visibleTrees :: "(string \<times> rendered list) list"
  mapRef :: map_surface
  network_log :: "request list"
  alerts :: "string list"

section \<open>utils/api.js\<close>

text \<open>
  \<^verbatim>\<open>treeToFeature\<close>; the constant \<^verbatim>\<open>type\<close> tags of the feature and of its geometry are
  left out, and \<^verbatim>\<open>parseFloat\<close> returns the number the row holds.
\<close>

definition treeToFeature :: "tree_row \<Rightarrow> feature" where
  "treeToFeature tree =
     \<lparr>coordinates = (row_longitude tree, row_latitude tree),
      properties =
        \<lparr>location_id = row_location_id tree,
         tree_id = row_tree_id tree,
         latin_name = row_latin_name tree,
         source = row_source tree,
         common_name = row_common_name tree,
         is_native = row_is_native tree\<rparr>\<rparr>"

text \<open>\<^verbatim>\<open>response.ok\<close>: the status is in the range 200..299.\<close>

definition response_ok :: "nat \<Rightarrow> bool" where
  "response_ok status = (200 \<le> status \<and> status \<le> 299)"

text \<open>
  Both senders have the same shape: a rejected \<^verbatim>\<open>fetch\<close>, a response that is not ok
  and a body that does not parse are all rethrown to the caller. What they send (for an
  add, the argument object and the current date) is recorded by the caller in
  \<^term>\<open>network_log\<close>; the outcome depends on the response alone.
\<close>

definition fetch_json :: "'a response \<Rightarrow> error + 'a" where
  "fetch_json resp =
     (case resp of
        FetchFailed \<Rightarrow> Inl NetworkError
      | Response status body \<Rightarrow>
          if \<not> response_ok status then Inl (HttpError status)
          else (case body of None \<Rightarrow> Inl JsonError | Some result \<Rightarrow> Inr result))"

definition sendRemoveLocation :: "string response \<Rightarrow> int \<Rightarrow> string \<Rightarrow> error + string" where
  "sendRemoveLocation resp locationId removedBy = fetch_json resp"

definition sendAddLocation :: "tree_row response \<Rightarrow> add_location \<Rightarrow> error + tree_row" where
  "sendAddLocation resp tree = fetch_json resp"

section \<open>App.jsx: editing the feature store\<close>

text \<open>
  \<^verbatim>\<open>String.prototype.trimEnd\<close>. A \<^typ>\<open>char\<close> stands for a code point below 256; the
  white space and line terminators of JavaScript among these are the tab, the line
  feed, the vertical tab, the form feed, the carriage return, the space and the
  no-break space U+00A0.
\<close>

definition is_white_space :: "char \<Rightarrow> bool" where
  "is_white_space c =
     (c \<in> set [CHR '' '', CHR 0x09, CHR 0x0A, CHR 0x0B, CHR 0x0C, CHR 0x0D, CHR 0xA0])"

definition trimEnd :: "string \<Rightarrow> string" where
  "trimEnd s = rev (dropWhile is_white_space (rev s))"

text \<open>JavaScript truthiness of a value that is a string, \<^verbatim>\<open>undefined\<close> or \<^verbatim>\<open>null\<close>.\<close>

definition truthy :: "string option \<Rightarrow> bool" where
  "truthy v = (case v of None \<Rightarrow> False | Some s \<Rightarrow> s \<noteq> [])"

text \<open>
  \<^verbatim>\<open>handleAddTreeSubmit\<close>. The whole body is inside \<^verbatim>\<open>try\<close>: a missing
  \<^verbatim>\<open>newTree.source\<close> makes \<^verbatim>\<open>trimEnd\<close> throw before the request is sent, a failed
  request throws at \<^verbatim>\<open>await\<close>; in both cases \<^verbatim>\<open>catch\<close> only logs. The store the
  handler spreads is the \<^verbatim>\<open>treeLocations\<close> of the render it belongs to, here the one
  of the state the handler starts in.
\<close>

definition handleAddTreeSubmit :: "tree_row response \<Rightarrow> form_state \<Rightarrow> app \<Rightarrow> app" where
  "handleAddTreeSubmit resp newTree s =
     (let s1 = s\<lparr>sourceNameRef := form_source newTree\<rparr> in
      case form_source newTree of
        None \<Rightarrow> s1
      | Some src \<Rightarrow>
          (let tree = \<lparr>add_tree_id = form_tree_id newTree,
                       add_latin_name = form_latin_name newTree,
                       add_common_name = form_common_name newTree,
                       add_latitude = form_latitude newTree,
                       add_longitude = form_longitude newTree,
                       add_source = trimEnd src,
                       add_is_native = form_is_native newTree\<rparr>;
               s2 = s1\<lparr>network_log := network_log s1 @ [PostTrees tree]\<rparr>
           in case sendAddLocation resp tree of
                Inl e \<Rightarrow> s2
              | Inr addedTree \<Rightarrow>
                  s2\<lparr>treeLocations :=
                       (treeLocations s)\<lparr>features :=
                          features (treeLocations s) @ [treeToFeature addedTree]\<rparr>,
                     isFormVisible := False\<rparr>))"

text \<open>
  \<^verbatim>\<open>removeTree\<close> is declared inside the effect with dependencies
  \<^verbatim>\<open>[layersLoaded, treeLocations]\<close>: the \<^verbatim>\<open>treeLocations\<close> it filters and spreads is the
  store of the render in which that effect ran, given here as \<open>captured\<close>. The answer of
  \<^verbatim>\<open>window.prompt\<close> is an input (\<^term>\<open>None\<close> when the user cancels). Nothing catches a
  failed request: the function returns the error together with the state reached so far.
\<close>

definition removeTree ::
  "feature_collection \<Rightarrow> string option \<Rightarrow> string response \<Rightarrow> int \<Rightarrow> app \<Rightarrow> error option \<times> app" where
  "removeTree captured answer resp locationId s =
     (if \<not> truthy answer then (None, s)
      else
        (let removedBy = trimEnd (case answer of None \<Rightarrow> [] | Some r \<Rightarrow> r);
             s1 = s\<lparr>sourceNameRef := Some removedBy,
                    network_log := network_log s @ [PutRemove locationId removedBy]\<rparr>
         in case sendRemoveLocation resp locationId removedBy of
              Inl e \<Rightarrow> (Some e, s1)
            | Inr result \<Rightarrow>
                (let updatedFeatures =
                       filter (\<lambda>feature. location_id (properties feature) \<noteq> locationId)
                         (features captured)
                 in (None, s1\<lparr>treeLocations := captured\<lparr>features := updatedFeatures\<rparr>\<rparr>))))"

text \<open>
  The listener that \<^verbatim>\<open>createTreePopup\<close> adds to the close button of the popup:
  \<^verbatim>\<open>handlePopupButtonClose\<close> with the \<^verbatim>\<open>location_id\<close> of the tree shown, calling the
  \<^verbatim>\<open>removeTree\<close> of the effect that opened the popup. It is a value made of that id and
  of the store that \<^verbatim>\<open>removeTree\<close> captured.
\<close>

type_synonym close_listener = "int \<times> feature_collection"

text \<open>
  \<^verbatim>\<open>handlePointEntry\<close>, for a \<^verbatim>\<open>mousedown\<close> or \<^verbatim>\<open>touchstart\<close> on an unclustered point
  whose first feature is given: the popup is shown and its close button gets its
  listener. The handler is registered again by its effect after every change of the
  store, so the store it captures is the one of the state in which it runs. The
  listener stays on the button as long as the popup stays open.
\<close>

definition handlePointEntry :: "feature \<Rightarrow> app \<Rightarrow> close_listener \<times> app" where
  "handlePointEntry feature s =
     ((location_id (properties feature), treeLocations s), s\<lparr>popup_open := True\<rparr>)"

definition handlePopupButtonClose ::
  "close_listener \<Rightarrow> string option \<Rightarrow> string response \<Rightarrow> app \<Rightarrow> error option \<times> app" where
  "handlePopupButtonClose listener answer resp s =
     removeTree (snd listener) answer resp (fst listener) s"

section \<open>App.jsx: selection\<close>

text \<open>\<^verbatim>\<open>handleTreeListClick\<close>: the new value of \<^verbatim>\<open>highlightedTree\<close>.\<close>

definition handleTreeListClick :: "string \<Rightarrow> app \<Rightarrow> app" where
  "handleTreeListClick treeName s =
     s\<lparr>highlightedTree := (if Some treeName = highlightedTree s then None else Some treeName)\<rparr>"

section \<open>components/NewTreeForm.jsx\<close>

text \<open>
  \<^verbatim>\<open>handleSubmit\<close> of the form; \<^verbatim>\<open>onSubmit\<close> is \<^verbatim>\<open>handleAddTreeSubmit\<close>, as \<^verbatim>\<open>App\<close>
  passes it. \<^verbatim>\<open>alert\<close> is recorded in \<^term>\<open>alerts\<close>.
\<close>

definition handleSubmit :: "tree_row response \<Rightarrow> form_state \<Rightarrow> app \<Rightarrow> app" where
  "handleSubmit resp formState s =
     (if \<not> truthy (form_common_name formState) \<or> \<not> truthy (form_source formState)
      then s\<lparr>alerts := alerts s @ [''Please fill out all required fields.'']\<rparr>
      else handleAddTreeSubmit resp formState s)"

section \<open>App.jsx: map event handlers\<close>

definition closePopup :: "app \<Rightarrow> app" where
  "closePopup s = s\<lparr>popup_open := False\<rparr>"

definition clickedOnFeature :: "touch_event \<Rightarrow> bool" where
  "clickedOnFeature event = (features_at_point event > 0)"

definition isSameLocation :: "int \<times> int \<Rightarrow> int \<times> int \<Rightarrow> bool" where
  "isSameLocation point1 point2 =
     (let tapThresholdPixels = 10;
          tapDistanceX = \<bar>fst point1 - fst point2\<bar>;
          tapDistanceY = \<bar>snd point1 - snd point2\<bar>
      in tapDistanceX \<le> tapThresholdPixels \<and> tapDistanceY \<le> tapThresholdPixels)"

definition handleDoubleTouch :: "touch_event \<Rightarrow> app \<Rightarrow> app" where
  "handleDoubleTouch event s = s\<lparr>newTreeCoordinates := Some (lngLat event), isFormVisible := True\<rparr>"

text \<open>\<^verbatim>\<open>handleMapClick\<close>, for a \<^verbatim>\<open>mousedown\<close> anywhere on the map.\<close>

definition handleMapClick :: "touch_event \<Rightarrow> app \<Rightarrow> app" where
  "handleMapClick event s = (if \<not> clickedOnFeature event then closePopup s else s)"

definition handleMapTouch :: "touch_event \<Rightarrow> app \<Rightarrow> app" where
  "handleMapTouch event s =
     (let currentPoint = point event in
      if \<not> clickedOnFeature event then
        (let s1 = closePopup s;
             tapLength = currentTime event - tap_time (lastTapRef s1);
             isDoubleTapTime = (tapLength < 200 \<and> tapLength > 0);
             isDoubleTapSpace = isSameLocation currentPoint (tap_point (lastTapRef s1))
         in if isDoubleTapTime \<and> isDoubleTapSpace then handleDoubleTouch event s1
            else s1\<lparr>lastTapRef := \<lparr>tap_point = currentPoint, tap_time = currentTime event\<rparr>\<rparr>)
      else s)"

section \<open>App.jsx: visible trees\<close>

text \<open>
  \<^verbatim>\<open>getClusterFeatures\<close>: the promise resolves with the leaves of the cluster, or rejects
  when the source reports an error (here: an id the source does not know).
\<close>

definition getClusterFeatures :: "map_surface \<Rightarrow> int \<Rightarrow> error + feature list" where
  "getClusterFeatures m clusterId =
     (case map_of (cluster_leaves m) clusterId of
        None \<Rightarrow> Inl ClusterLeavesError
      | Some leaves \<Rightarrow> Inr leaves)"

text \<open>\<^verbatim>\<open>Array.from(new Set(xs))\<close>: the distinct elements in the order of their first occurrence.\<close>

fun set_add_all :: "'a list \<Rightarrow> 'a list \<Rightarrow> 'a list" where
  "set_add_all acc [] = acc"
| "set_add_all acc (x # xs) = set_add_all (if x \<in> set acc then acc else acc @ [x]) xs"

definition array_from_set :: "'a list \<Rightarrow> 'a list" where
  "array_from_set xs = set_add_all [] xs"

text \<open>
  The rendered points with one entry per \<^verbatim>\<open>location_id\<close>: for each distinct id the
  first rendered feature that has it (\<^verbatim>\<open>trees.find\<close> always finds one, the ids being
  those of \<^verbatim>\<open>trees\<close>).
\<close>

definition unique_trees :: "feature list \<Rightarrow> feature list" where
  "unique_trees trees =
     List.map_filter (\<lambda>i. find (\<lambda>feature. location_id (properties feature) = i) trees)
       (array_from_set (map (\<lambda>feature. location_id (properties feature)) trees))"

text \<open>
  The accumulator \<^verbatim>\<open>groups\<close> is a plain object created by \<^verbatim>\<open>{}\<close>. Its own properties
  are an association list in creation order. A name that \<^verbatim>\<open>Object.prototype\<close> defines
  is found through the prototype chain although the object does not own it: the test
  \<^verbatim>\<open>!groups[common_name]\<close> is then false and \<^verbatim>\<open>push\<close> is not a function of the value
  found, which throws a \<^verbatim>\<open>TypeError\<close>.
\<close>

type_synonym groups = "(string \<times> rendered list) list"

definition object_prototype_keys :: "string list" where
  "object_prototype_keys =
     [''constructor'', ''hasOwnProperty'', ''isPrototypeOf'', ''propertyIsEnumerable'',
      ''toLocaleString'', ''toString'', ''valueOf'', ''__proto__'',
      ''__defineGetter__'', ''__defineSetter__'', ''__lookupGetter__'', ''__lookupSetter__'']"

definition push_group :: "rendered \<Rightarrow> groups \<Rightarrow> string \<Rightarrow> error + groups" where
  "push_group cluster groups name =
     (if name \<in> fst ` set groups
      then Inr (map (\<lambda>(k, members). if k = name then (k, members @ [cluster]) else (k, members)) groups)
      else if name \<in> set object_prototype_keys then Inl TypeError
      else Inr (groups @ [(name, [cluster])]))"

text \<open>The \<^verbatim>\<open>forEach\<close> over the features of one rendered item.\<close>

fun group_features :: "rendered \<Rightarrow> groups \<Rightarrow> feature list \<Rightarrow> error + groups" where
  "group_features cluster groups [] = Inr groups"
| "group_features cluster groups (feature # rest) =
     (case push_group cluster groups (common_name (properties feature)) of
        Inl e \<Rightarrow> Inl e
      | Inr groups' \<Rightarrow> group_features cluster groups' rest)"

text \<open>The features one rendered item stands for: the leaves of a cluster, or the point itself.\<close>

definition features_of :: "map_surface \<Rightarrow> rendered \<Rightarrow> error + feature list" where
  "features_of m cluster =
     (case cluster of
        Cluster clusterId \<Rightarrow> getClusterFeatures m clusterId
      | Point feature \<Rightarrow> Inr [feature])"

text \<open>The \<^verbatim>\<open>reduce\<close> over \<^verbatim>\<open>trees.concat(clusters)\<close>; a rejected promise ends it.\<close>

fun group_rendered :: "map_surface \<Rightarrow> groups \<Rightarrow> rendered list \<Rightarrow> error + groups" where
  "group_rendered m groups [] = Inr groups"
| "group_rendered m groups (cluster # rest) =
     (case features_of m cluster of
        Inl e \<Rightarrow> Inl e
      | Inr fs \<Rightarrow>
          (case group_features cluster groups fs of
             Inl e \<Rightarrow> Inl e
           | Inr groups' \<Rightarrow> group_rendered m groups' rest))"

text \<open>
  \<^verbatim>\<open>Object.entries\<close> lists the own properties whose name is an array index first, in
  ascending numeric order, and then the other names in creation order. An array index
  is the canonical decimal form of an integer from 0 to \<open>2\<^sup>3\<^sup>2 - 2\<close>.
\<close>

definition is_digit :: "char \<Rightarrow> bool" where
  "is_digit c = (c \<in> set ''0123456789'')"

definition digits_value :: "string \<Rightarrow> nat" where
  "digits_value s = foldl (\<lambda>n c. 10 * n + (of_char c - 48)) 0 s"

definition array_index :: "string \<Rightarrow> nat option" where
  "array_index s =
     (if s \<noteq> [] \<and> list_all is_digit s \<and> (s = ''0'' \<or> take 1 s \<noteq> ''0'')
         \<and> digits_value s < 2 ^ 32 - 1
      then Some (digits_value s) else None)"

definition Object_entries :: "groups \<Rightarrow> groups" where
  "Object_entries groups =
     sort_key (\<lambda>(k, members). case array_index k of Some n \<Rightarrow> n | None \<Rightarrow> 0)
       (filter (\<lambda>(k, members). array_index k \<noteq> None) groups)
     @ filter (\<lambda>(k, members). array_index k = None) groups"

text \<open>
  \<^verbatim>\<open>sort((a, b) => b[1].length - a[1].length)\<close>: \<^verbatim>\<open>Array.prototype.sort\<close> is stable, and
  the comparator orders by the negated length.
\<close>

definition sort_by_length :: "groups \<Rightarrow> groups" where
  "sort_by_length entries = sort_key (\<lambda>(k, members). - int (length members)) entries"

text \<open>
  \<^verbatim>\<open>updateVisibleTrees\<close>, run on one snapshot of the map. A rejected promise leaves
  \<^verbatim>\<open>visibleTrees\<close> as it was.
\<close>

definition visible_summary :: "map_surface \<Rightarrow> error + groups" where
  "visible_summary m =
     (let trees = unique_trees (rendered_points m);
          clusters = rendered_clusters m
      in case group_rendered m [] (map Point trees @ map Cluster clusters) of
           Inl e \<Rightarrow> Inl e
         | Inr groupedTrees \<Rightarrow> Inr (sort_by_length (Object_entries groupedTrees)))"

definition updateVisibleTrees :: "app \<Rightarrow> error option \<times> app" where
  "updateVisibleTrees s =
     (case visible_summary (mapRef s) of
        Inl e \<Rightarrow> (Some e, s)
      | Inr summary \<Rightarrow> (None, s\<lparr>visibleTrees := summary\<rparr>))"

section \<open>App.jsx: highlighting\<close>

text \<open>The \<^verbatim>\<open>for\<close> loop of \<^verbatim>\<open>highlightTree\<close> over the rendered clusters.\<close>

fun clusterIdsToHighlight :: "map_surface \<Rightarrow> string \<Rightarrow> int list \<Rightarrow> int list \<Rightarrow> error + int list" where
  "clusterIdsToHighlight m treeName acc [] = Inr acc"
| "clusterIdsToHighlight m treeName acc (clusterId # rest) =
     (case getClusterFeatures m clusterId of
        Inl e \<Rightarrow> Inl e
      | Inr leaves \<Rightarrow>
          clusterIdsToHighlight m treeName
            (if list_ex (\<lambda>leaf. common_name (properties leaf) = treeName) leaves
             then acc @ [clusterId] else acc) rest)"

text \<open>
  \<^verbatim>\<open>highlightTree\<close>: the two \<^verbatim>\<open>setFilter\<close> calls follow the loop with no \<^verbatim>\<open>await\<close>
  between them; a rejected \<^verbatim>\<open>getClusterFeatures\<close> leaves both filters as they were.
\<close>

definition highlightTree :: "string \<Rightarrow> map_surface \<Rightarrow> error + map_surface" where
  "highlightTree treeName m =
     (case clusterIdsToHighlight m treeName [] (rendered_clusters m) of
        Inl e \<Rightarrow> Inl e
      | Inr ids \<Rightarrow>
          Inr (m\<lparr>highlighted_point := [Str treeName], highlighted_cluster := map Num ids\<rparr>))"

text \<open>The legacy filter \<^verbatim>\<open>["in", key, v1, ...]\<close> passes a value that is one of the listed ones.\<close>

definition filter_in :: "jsval list \<Rightarrow> jsval \<Rightarrow> bool" where
  "filter_in values v = (v \<in> set values)"

definition point_highlighted :: "map_surface \<Rightarrow> feature \<Rightarrow> bool" where
  "point_highlighted m feature = filter_in (highlighted_point m) (Str (common_name (properties feature)))"

definition cluster_highlighted :: "map_surface \<Rightarrow> int \<Rightarrow> bool" where
  "cluster_highlighted m clusterId = filter_in (highlighted_cluster m) (Num clusterId)"

text \<open>
  The effect with dependencies \<^verbatim>\<open>[layersLoaded, highlightedTree]\<close>, once the layers are
  loaded: it runs \<^verbatim>\<open>highlightTree\<close> when a name is selected. The debounced handler it
  registers for \<^verbatim>\<open>moveend\<close> and \<^verbatim>\<open>zoomend\<close> does the same when it fires.
\<close>

definition highlight_effect :: "app \<Rightarrow> app" where
  "highlight_effect s =
     (case highlightedTree s of
        None \<Rightarrow> s
      | Some treeName \<Rightarrow>
          if treeName = [] then s
          else (case highlightTree treeName (mapRef s) of
                  Inl e \<Rightarrow> s
                | Inr m \<Rightarrow> s\<lparr>mapRef := m\<rparr>))"

text \<open>
  The cleanup of that effect, run before the effect runs again and when the component
  unmounts: when the selection it was run for is a name, both filters are reset to
  match nothing.
\<close>

definition highlight_cleanup :: "string option \<Rightarrow> app \<Rightarrow> app" where
  "highlight_cleanup selected s =
     (if truthy selected
      then s\<lparr>mapRef := (mapRef s)\<lparr>highlighted_point := [Str ''''], highlighted_cluster := [Str '''']\<rparr>\<rparr>
      else s)"

text \<open>
  The effect with dependencies \<^verbatim>\<open>[layersLoaded, treeLocations]\<close> that hands the store to
  the map: \<^verbatim>\<open>getSource("trees").setData(treeLocations)\<close>. What the map renders afterwards
  (points, clusters and their leaves) is an input; the layer filters stay as they are.
  No other effect that touches the map depends on \<^verbatim>\<open>treeLocations\<close>.
\<close>

definition setData :: "feature list \<Rightarrow> int list \<Rightarrow> (int \<times> feature list) list \<Rightarrow> map_surface \<Rightarrow> map_surface" where
  "setData points clusters leaves m =
     m\<lparr>rendered_points := points, rendered_clusters := clusters, cluster_leaves := leaves\<rparr>"

definition data_change_listener :: "feature list \<Rightarrow> int list \<Rightarrow> (int \<times> feature list) list \<Rightarrow> app \<Rightarrow> app" where
  "data_change_listener points clusters leaves s =
     s\<lparr>mapRef := setData points clusters leaves (mapRef s)\<rparr>"

section \<open>Notions used to state the properties\<close>

text \<open>
  The arrival sequence of a run of \<^verbatim>\<open>updateVisibleTrees\<close>: the pairs of a common name
  and the rendered item pushed for it, in the order in which the \<^verbatim>\<open>reduce\<close> and its
  inner \<^verbatim>\<open>forEach\<close> meet them.
\<close>

definition named :: "rendered \<Rightarrow> feature list \<Rightarrow> (string \<times> rendered) list" where
  "named cluster fs = map (\<lambda>feature. (common_name (properties feature), cluster)) fs"

definition arrivals_of :: "map_surface \<Rightarrow> rendered list \<Rightarrow> (string \<times> rendered) list" where
  "arrivals_of m items =
     concat (map (\<lambda>cluster. case features_of m cluster of
                               Inl e \<Rightarrow> []
                             | Inr fs \<Rightarrow> named cluster fs) items)"

definition arrivals :: "map_surface \<Rightarrow> (string \<times> rendered) list" where
  "arrivals m =
     arrivals_of m (map Point (unique_trees (rendered_points m)) @ map Cluster (rendered_clusters m))"

text \<open>Pushing a sequence of such pairs, one after the other.\<close>

fun pushes :: "groups \<Rightarrow> (string \<times> rendered) list \<Rightarrow> error + groups" where
  "pushes groups [] = Inr groups"
| "pushes groups ((name, cluster) # rest) =
     (case push_group cluster groups name of
        Inl e \<Rightarrow> Inl e
      | Inr groups' \<Rightarrow> pushes groups' rest)"

text \<open>The array a groups object holds under a name, empty when it holds none.\<close>

definition members :: "groups \<Rightarrow> string \<Rightarrow> rendered list" where
  "members g k = (case map_of g k of None \<Rightarrow> [] | Some ms \<Rightarrow> ms)"

text \<open>A member of a group that is the standalone point with a given \<^verbatim>\<open>location_id\<close>.\<close>

definition point_with_id :: "int \<Rightarrow> rendered \<Rightarrow> bool" where
  "point_with_id i cluster =
     (case cluster of Point feature \<Rightarrow> location_id (properties feature) = i | Cluster clusterId \<Rightarrow> False)"

text \<open>The test of the loop of \<^verbatim>\<open>highlightTree\<close> on one cluster id.\<close>

definition has_leaf_named :: "map_surface \<Rightarrow> string \<Rightarrow> int \<Rightarrow> bool" where
  "has_leaf_named m treeName clusterId =
     (case getClusterFeatures m clusterId of
        Inl e \<Rightarrow> False
      | Inr leaves \<Rightarrow> list_ex (\<lambda>leaf. common_name (properties leaf) = treeName) leaves)"

section \<open>Sample data\<close>

text \<open>
  Three trees, a store that holds them and a state of the application before any
  interaction; the concrete instances below are evaluated on them.
\<close>

definition oak1 :: feature where
  "oak1 = \<lparr>coordinates = (-71, 42),
            properties = \<lparr>location_id = 1, tree_id = ''t1'', latin_name = ''quercus rubra'',
              source = ''ann'', common_name = ''Oak'', is_native = True\<rparr>\<rparr>"

definition oak2 :: feature where
  "oak2 = \<lparr>coordinates = (-71.0001, 42.0001),
            properties = \<lparr>location_id = 2, tree_id = ''t1'', latin_name = ''quercus rubra'',
              source = ''ann'', common_name = ''Oak'', is_native = True\<rparr>\<rparr>"

definition maple3 :: feature where
  "maple3 = \<lparr>coordinates = (-72, 43),
            properties = \<lparr>location_id = 3, tree_id = ''t2'', latin_name = ''acer rubrum'',
              source = ''bob'', common_name = ''Maple'', is_native = False\<rparr>\<rparr>"

definition empty_map :: map_surface where
  "empty_map = \<lparr>rendered_points = [], rendered_clusters = [], cluster_leaves = [],
                highlighted_point = [Str ''''], highlighted_cluster = [Str '''']\<rparr>"

definition app0 :: app where
  "app0 = \<lparr>treeLocations = \<lparr>type_name = ''FeatureCollection'', features = [oak1, oak2, maple3]\<rparr>,
           highlightedTree = None, isFormVisible = False, newTreeCoordinates = None,
           sourceNameRef = Some '''', lastTapRef = \<lparr>tap_point = (0, 0), tap_time = 0\<rparr>,
           popup_open = False, visibleTrees = [], mapRef = empty_map,
           network_log = [], alerts = []\<rparr>"

definition maple_row :: tree_row where
  "maple_row = \<lparr>row_location_id = 5, row_tree_id = ''t2'', row_latin_name = ''acer rubrum'',
       row_source = ''bob'', row_common_name = ''Maple'', row_is_native = False,
       row_latitude = 43, row_longitude = -72\<rparr>"

definition maple_form :: form_state where
  "maple_form = \<lparr>form_common_name = Some ''Maple'', form_latitude = 43, form_longitude = -72,
       form_is_native = False, form_tree_id = Some ''t2'', form_family = Some ''sapindaceae'',
       form_latin_name = Some ''acer rubrum'', form_state_distribution = Some ''MA'',
       form_source = Some ''bob ''\<rparr>"

definition first_tap :: touch_event where
  "first_tap = \<lparr>point = (100, 100), lngLat = (-71, 42), currentTime = 1000000, features_at_point = 0\<rparr>"

definition second_tap :: touch_event where
  "second_tap = \<lparr>point = (105, 95), lngLat = (-71.00001, 42.00001), currentTime = 1000150, features_at_point = 0\<rparr>"

definition late_tap :: touch_event where
  "late_tap = \<lparr>point = (105, 95), lngLat = (-71.00001, 42.00001), currentTime = 1000300, features_at_point = 0\<rparr>"

definition tree_tap :: touch_event where
  "tree_tap = \<lparr>point = (105, 95), lngLat = (-71.00001, 42.00001), currentTime = 1000150, features_at_point = 1\<rparr>"

text \<open>
  A fourth tree, and four renderings of the map: a standalone point that is also a leaf
  of a rendered cluster, a point query that returns one point twice, two standalone
  points beside a cluster of two oaks, and two points whose names are numerals.
\<close>

definition elm4 :: feature where
  "elm4 = \<lparr>coordinates = (-71.5, 42.5),
            properties = \<lparr>location_id = 4, tree_id = ''t3'', latin_name = ''ulmus americana'',
              source = ''bob'', common_name = ''Elm'', is_native = True\<rparr>\<rparr>"

definition overlap_map :: map_surface where
  "overlap_map = \<lparr>rendered_points = [oak1], rendered_clusters = [5],
     cluster_leaves = [(5, [oak1, maple3])],
     highlighted_point = [Str ''''], highlighted_cluster = [Str '''']\<rparr>"

definition duplicate_map :: map_surface where
  "duplicate_map = \<lparr>rendered_points = [oak1, maple3, oak1], rendered_clusters = [],
     cluster_leaves = [],
     highlighted_point = [Str ''''], highlighted_cluster = [Str '''']\<rparr>"

definition scenario_map :: map_surface where
  "scenario_map = \<lparr>rendered_points = [maple3, elm4], rendered_clusters = [5],
     cluster_leaves = [(5, [oak1, oak2])],
     highlighted_point = [Str ''''], highlighted_cluster = [Str '''']\<rparr>"

definition numbered :: "string \<Rightarrow> int \<Rightarrow> feature" where
  "numbered name i = \<lparr>coordinates = (-71, 42),
            properties = \<lparr>location_id = i, tree_id = ''t'', latin_name = '''',
              source = ''ann'', common_name = name, is_native = True\<rparr>\<rparr>"

definition numbered_map :: map_surface where
  "numbered_map = \<lparr>rendered_points = [numbered ''10'' 1, numbered ''9'' 2], rendered_clusters = [],
     cluster_leaves = [],
     highlighted_point = [Str ''''], highlighted_cluster = [Str '''']\<rparr>"

text \<open>
  The application with the four trees in its store and the third rendering on its map,
  and what becomes of it when \<^verbatim>\<open>Maple\<close> is selected and then a maple is added that
  the map renders in a new cluster, with the maple already there.
\<close>

definition scenario_app :: app where
  "scenario_app =
     app0\<lparr>treeLocations := \<lparr>type_name = ''FeatureCollection'', features = [oak1, oak2, maple3, elm4]\<rparr>,
          mapRef := scenario_map\<rparr>"

definition after_add :: app where
  "after_add =
     data_change_listener [elm4] [5, 7] [(5, [oak1, oak2]), (7, [maple3, treeToFeature maple_row])]
       (handleAddTreeSubmit (Response 200 (Some maple_row)) maple_form
          (highlight_effect (handleTreeListClick ''Maple'' scenario_app)))"

text \<open>
  A popup opened with the mouse on the second oak; a double click on that oak, which
  leaves the popup open and shows the add form, and the form submitted with success;
  then the close button of the popup, confirmed and acknowledged.
\<close>

definition click_on_oak2 :: touch_event where
  "click_on_oak2 = \<lparr>point = (200, 150), lngLat = (-71.0001, 42.0001), currentTime = 2000000,
                     features_at_point = 1\<rparr>"

definition popup_on_oak2 :: "close_listener \<times> app" where
  "popup_on_oak2 = handlePointEntry oak2 (handleMapClick click_on_oak2 app0)"

definition added_under_popup :: app where
  "added_under_popup =
     handleSubmit (Response 200 (Some maple_row)) maple_form
       (handleDoubleTouch click_on_oak2 (snd popup_on_oak2))"

definition removed_by_popup :: app where
  "removed_by_popup =
     snd (handlePopupButtonClose (fst popup_on_oak2) (Some ''ann'') (Response 200 (Some ''ok''))
            added_under_popup)"

section \<open>Properties\<close>

subsection \<open>Remote calls\<close>

lemma fetch_json_fails_iff:
  "isl (fetch_json resp) \<longleftrightarrow>
     (case resp of FetchFailed \<Rightarrow> True
      | Response status body \<Rightarrow> \<not> response_ok status \<or> body = None)"
  by (simp add: fetch_json_def split: response.splits option.splits)

subsection \<open>Edit coordinator\<close>

text \<open>
  Claim C1. When the remote call of an add or of a remove fails (\<^verbatim>\<open>fetch\<close> rejects,
  the response is not ok, or its body does not parse, so that the sender throws), the
  feature store after the operation is the feature store before it: a failed add
  appends nothing and a failed remove filters nothing out.
\<close>

theorem failed_remote_keeps_store:
  "(isl (fetch_json resp) \<longrightarrow> treeLocations (handleAddTreeSubmit resp newTree s) = treeLocations s)
   \<and> (isl (fetch_json resp') \<longrightarrow>
        treeLocations (snd (removeTree captured answer resp' locationId s)) = treeLocations s)"
  by (auto simp add: handleAddTreeSubmit_def removeTree_def sendAddLocation_def sendRemoveLocation_def Let_def
      split: option.splits sum.splits)

theorem failed_remote_keeps_store_witness:
  "isl (fetch_json (FetchFailed :: tree_row response))
   \<and> treeLocations (handleAddTreeSubmit FetchFailed maple_form app0) = treeLocations app0
   \<and> isl (fetch_json (Response 500 None :: string response))
   \<and> treeLocations (snd (removeTree (treeLocations app0) (Some ''ann'') (Response 500 None) 2 app0))
        = treeLocations app0"
  using failed_remote_keeps_store
          [of FetchFailed maple_form app0 "Response 500 None" "treeLocations app0" "Some ''ann''" 2]
  by (simp add: fetch_json_def response_ok_def)

text \<open>
  Claim C2, as the code has it. The features have no \<^verbatim>\<open>active\<close> flag. After a remove
  that the user confirmed and the backend acknowledged, the feature store holds no
  feature with the removed \<^verbatim>\<open>location_id\<close>, whatever store the listener had captured:
  the feature is deleted from the local list, not kept and flagged.
\<close>

theorem remove_drops_feature:
  assumes "truthy answer" and "fetch_json resp = Inr ack"
  shows "\<forall>f \<in> set (features (treeLocations (snd (removeTree captured answer resp locationId s)))).
           location_id (properties f) \<noteq> locationId"
  using assms
  by (auto simp add: removeTree_def sendRemoveLocation_def Let_def)

theorem remove_drops_feature_witness:
  "truthy (Some ''ann'') \<and> fetch_json (Response 200 (Some ''ok'')) = Inr ''ok''
   \<and> location_id (properties oak2) = 2
   \<and> oak2 \<notin> set (features (treeLocations
                (snd (removeTree (treeLocations app0) (Some ''ann'') (Response 200 (Some ''ok'')) 2 app0))))"
proof -
  have a: "truthy (Some ''ann'')" by (simp add: truthy_def)
  have b: "fetch_json (Response 200 (Some ''ok'')) = Inr ''ok''" by (simp add: fetch_json_def response_ok_def)
  have c: "location_id (properties oak2) = 2" by (simp add: oak2_def)
  from remove_drops_feature [OF a b, of "treeLocations app0" 2 app0] c
  have "oak2 \<notin> set (features (treeLocations
                (snd (removeTree (treeLocations app0) (Some ''ann'') (Response 200 (Some ''ok'')) 2 app0))))"
    by blast
  with a b c show ?thesis by simp
qed

text \<open>
  Claim C2 as stated fails: the second oak is in the store before its successful removal
  and is not in the store afterwards.
\<close>

theorem remove_hard_deletes_counterexample:
  "oak2 \<in> set (features (treeLocations app0))
   \<and> oak2 \<notin> set (features (treeLocations
                (snd (removeTree (treeLocations app0) (Some ''ann'') (Response 200 (Some ''ok'')) 2 app0))))"
  by (simp add: removeTree_def sendRemoveLocation_def fetch_json_def response_ok_def truthy_def Let_def
       app0_def oak1_def oak2_def maple3_def)

text \<open>
  What a successful remove makes of the store: the collection the listener captured,
  without the features that have the removed \<^verbatim>\<open>location_id\<close>. It is the current store
  without them only when the store has not changed since the popup was opened.
\<close>

lemma removeTree_store:
  assumes "truthy answer" and "fetch_json resp = Inr ack"
  shows "treeLocations (snd (removeTree captured answer resp locationId s))
           = captured\<lparr>features :=
               filter (\<lambda>f. location_id (properties f) \<noteq> locationId) (features captured)\<rparr>"
  using assms
  by (auto simp add: removeTree_def sendRemoveLocation_def Let_def)

text \<open>
  Claim C10 does not hold of the code. A popup is opened on the second oak while the
  store holds the trees 1, 2 and 3; a maple with \<^verbatim>\<open>location_id\<close> 5 is added while the
  popup stays open; the close button of the popup then removes tree 2 from the store
  its listener captured, and the store becomes the trees 1 and 3: the maple, whose
  \<^verbatim>\<open>location_id\<close> differs from the removed one, is gone.
\<close>

theorem stale_remove_drops_added_tree:
  "popup_open added_under_popup
   \<and> features (treeLocations added_under_popup) = [oak1, oak2, maple3, treeToFeature maple_row]
   \<and> location_id (properties (treeToFeature maple_row)) = 5
   \<and> fst (handlePopupButtonClose (fst popup_on_oak2) (Some ''ann'') (Response 200 (Some ''ok''))
            added_under_popup) = None
   \<and> features (treeLocations removed_by_popup) = [oak1, maple3]"
  by (simp add: removed_by_popup_def added_under_popup_def popup_on_oak2_def click_on_oak2_def
        handlePopupButtonClose_def handlePointEntry_def handleMapClick_def clickedOnFeature_def
        handleDoubleTouch_def handleSubmit_def handleAddTreeSubmit_def removeTree_def
        sendAddLocation_def sendRemoveLocation_def fetch_json_def response_ok_def truthy_def
        treeToFeature_def Let_def app0_def maple_form_def maple_row_def
        oak1_def oak2_def maple3_def)

subsection \<open>Selection controller\<close>

text \<open>
  Claim C3, as the code has it. A click on the name that is selected clears the
  selection and a click on any other name selects it. Two clicks on the same name
  therefore restore the selection they started from when that was the name clicked,
  and leave no selection otherwise.
\<close>

theorem select_toggle:
  "highlightedTree (handleTreeListClick k s) = (if highlightedTree s = Some k then None else Some k)
   \<and> (highlightedTree s \<noteq> Some k \<longrightarrow>
        highlightedTree (handleTreeListClick k (handleTreeListClick k s)) = None)
   \<and> (highlightedTree s = Some k \<longrightarrow>
        highlightedTree (handleTreeListClick k (handleTreeListClick k s)) = Some k)"
  by (cases "highlightedTree s") (auto simp add: handleTreeListClick_def)

theorem select_toggle_witness:
  "highlightedTree app0 \<noteq> Some ''Oak''
   \<and> highlightedTree (handleTreeListClick ''Oak'' (handleTreeListClick ''Oak'' app0)) = None
   \<and> highlightedTree (handleTreeListClick ''Oak'' app0) = Some ''Oak''
   \<and> highlightedTree (handleTreeListClick ''Oak'' (handleTreeListClick ''Oak'' (handleTreeListClick ''Oak'' app0))) = Some ''Oak''"
proof -
  have a: "highlightedTree app0 \<noteq> Some ''Oak''" by (simp add: app0_def)
  have b: "highlightedTree (handleTreeListClick ''Oak'' app0) = Some ''Oak''"
    using a select_toggle [of "''Oak''" app0] by simp
  show ?thesis
    using a b select_toggle [of "''Oak''" app0] select_toggle [of "''Oak''" "handleTreeListClick ''Oak'' app0"]
    by simp
qed

text \<open>
  Claim C3 as stated fails on its last part: starting with \<^verbatim>\<open>Oak\<close> selected, two clicks
  on \<^verbatim>\<open>Oak\<close> leave \<^verbatim>\<open>Oak\<close> selected, not \<^verbatim>\<open>null\<close>.
\<close>

theorem select_twice_counterexample:
  "highlightedTree (handleTreeListClick ''Oak'' (handleTreeListClick ''Oak'' (app0\<lparr>highlightedTree := Some ''Oak''\<rparr>)))
     = Some ''Oak''"
  by (simp add: handleTreeListClick_def)

subsection \<open>Validation of the add form\<close>

text \<open>
  Claim C4. When the common name or the source of the form is empty (the empty string
  or a missing value), submitting raises the alert and sends no request, and the store
  is unchanged; when both are non-empty, exactly one \<^verbatim>\<open>POST /trees\<close> request is sent
  and no alert is raised. So the remote create is called only when both are non-empty.
\<close>

theorem add_validates_first:
  "(\<not> truthy (form_common_name formState) \<or> \<not> truthy (form_source formState) \<longrightarrow>
      network_log (handleSubmit resp formState s) = network_log s
      \<and> alerts (handleSubmit resp formState s) = alerts s @ [''Please fill out all required fields.'']
      \<and> treeLocations (handleSubmit resp formState s) = treeLocations s)
   \<and> (truthy (form_common_name formState) \<and> truthy (form_source formState) \<longrightarrow>
      (\<exists>tree. network_log (handleSubmit resp formState s) = network_log s @ [PostTrees tree]
          \<and> add_common_name tree = form_common_name formState)
      \<and> alerts (handleSubmit resp formState s) = alerts s)"
  by (auto simp add: handleSubmit_def handleAddTreeSubmit_def Let_def truthy_def
      split: option.splits sum.splits)

theorem add_validates_first_witness:
  "\<not> truthy (form_source (maple_form\<lparr>form_source := Some ''''\<rparr>))
   \<and> network_log (handleSubmit (Response 200 (Some maple_row)) (maple_form\<lparr>form_source := Some ''''\<rparr>) app0) = []
   \<and> alerts (handleSubmit (Response 200 (Some maple_row)) (maple_form\<lparr>form_source := Some ''''\<rparr>) app0)
        = [''Please fill out all required fields.'']
   \<and> truthy (form_common_name maple_form) \<and> truthy (form_source maple_form)
   \<and> length (network_log (handleSubmit (Response 200 (Some maple_row)) maple_form app0)) = 1
   \<and> alerts (handleSubmit (Response 200 (Some maple_row)) maple_form app0) = []"
proof -
  have a: "\<not> truthy (form_source (maple_form\<lparr>form_source := Some ''''\<rparr>))" by (simp add: truthy_def)
  have b: "truthy (form_common_name maple_form) \<and> truthy (form_source maple_form)"
    by (simp add: truthy_def maple_form_def)
  have c: "network_log app0 = [] \<and> alerts app0 = []" by (simp add: app0_def)
  from add_validates_first [of "maple_form\<lparr>form_source := Some ''''\<rparr>" "Response 200 (Some maple_row)" app0] a c
  have d: "network_log (handleSubmit (Response 200 (Some maple_row)) (maple_form\<lparr>form_source := Some ''''\<rparr>) app0) = []
   \<and> alerts (handleSubmit (Response 200 (Some maple_row)) (maple_form\<lparr>form_source := Some ''''\<rparr>) app0)
        = [''Please fill out all required fields.'']" by simp
  from add_validates_first [of maple_form "Response 200 (Some maple_row)" app0] b c
  have e: "length (network_log (handleSubmit (Response 200 (Some maple_row)) maple_form app0)) = 1
   \<and> alerts (handleSubmit (Response 200 (Some maple_row)) maple_form app0) = []" by auto
  show ?thesis using a b d e by simp
qed

subsection \<open>Double tap on the map\<close>

text \<open>
  Claim C8. For a touch on a position with no rendered point or cluster: when the
  remembered tap is earlier by more than 0 and less than 200 milliseconds and at most
  10 pixels away in both x and y, the add form opens at the geographic position of the
  touch; otherwise the form and the add coordinates stay as they are and the touch
  becomes the remembered tap. A touch on a rendered point or cluster changes nothing.
\<close>

theorem double_tap_opens_add:
  "(features_at_point event = 0
      \<and> 0 < currentTime event - tap_time (lastTapRef s)
      \<and> currentTime event - tap_time (lastTapRef s) < 200
      \<and> \<bar>fst (point event) - fst (tap_point (lastTapRef s))\<bar> \<le> 10
      \<and> \<bar>snd (point event) - snd (tap_point (lastTapRef s))\<bar> \<le> 10 \<longrightarrow>
        isFormVisible (handleMapTouch event s)
        \<and> newTreeCoordinates (handleMapTouch event s) = Some (lngLat event)
        \<and> lastTapRef (handleMapTouch event s) = lastTapRef s)
   \<and> (features_at_point event = 0
      \<and> \<not> (0 < currentTime event - tap_time (lastTapRef s)
          \<and> currentTime event - tap_time (lastTapRef s) < 200
          \<and> \<bar>fst (point event) - fst (tap_point (lastTapRef s))\<bar> \<le> 10
          \<and> \<bar>snd (point event) - snd (tap_point (lastTapRef s))\<bar> \<le> 10) \<longrightarrow>
        isFormVisible (handleMapTouch event s) = isFormVisible s
        \<and> newTreeCoordinates (handleMapTouch event s) = newTreeCoordinates s
        \<and> lastTapRef (handleMapTouch event s) = \<lparr>tap_point = point event, tap_time = currentTime event\<rparr>)
   \<and> (features_at_point event > 0 \<longrightarrow> handleMapTouch event s = s)"
  by (auto simp add: handleMapTouch_def clickedOnFeature_def isSameLocation_def handleDoubleTouch_def
        closePopup_def Let_def)

theorem double_tap_opens_add_witness:
  "lastTapRef (handleMapTouch first_tap app0) = \<lparr>tap_point = (100, 100), tap_time = 1000000\<rparr>
   \<and> \<not> isFormVisible (handleMapTouch first_tap app0)
   \<and> isFormVisible (handleMapTouch second_tap (handleMapTouch first_tap app0))
   \<and> newTreeCoordinates (handleMapTouch second_tap (handleMapTouch first_tap app0)) = Some (-71.00001, 42.00001)
   \<and> \<not> isFormVisible (handleMapTouch late_tap (handleMapTouch first_tap app0))
   \<and> lastTapRef (handleMapTouch late_tap (handleMapTouch first_tap app0)) = \<lparr>tap_point = (105, 95), tap_time = 1000300\<rparr>
   \<and> handleMapTouch tree_tap (handleMapTouch first_tap app0) = handleMapTouch first_tap app0"
proof -
  let ?s1 = "handleMapTouch first_tap app0"
  have a: "lastTapRef ?s1 = \<lparr>tap_point = (100, 100), tap_time = 1000000\<rparr> \<and> \<not> isFormVisible ?s1"
    using double_tap_opens_add [of first_tap app0]
    by (simp add: first_tap_def app0_def)
  have b: "isFormVisible (handleMapTouch second_tap ?s1)
       \<and> newTreeCoordinates (handleMapTouch second_tap ?s1) = Some (-71.00001, 42.00001)"
    using a double_tap_opens_add [of second_tap ?s1]
    by (simp add: second_tap_def)
  have c: "\<not> isFormVisible (handleMapTouch late_tap ?s1)
       \<and> lastTapRef (handleMapTouch late_tap ?s1) = \<lparr>tap_point = (105, 95), tap_time = 1000300\<rparr>"
    using a double_tap_opens_add [of late_tap ?s1]
    by (simp add: late_tap_def)
  have d: "handleMapTouch tree_tap ?s1 = ?s1"
    using double_tap_opens_add [of tree_tap ?s1]
    by (simp add: tree_tap_def)
  show ?thesis using a b c d by simp
qed

subsection \<open>Sets as arrays\<close>

lemma set_set_add_all: "set (set_add_all acc xs) = set acc \<union> set xs"
  by (induction xs arbitrary: acc) auto

lemma distinct_set_add_all: "distinct acc \<Longrightarrow> distinct (set_add_all acc xs)"
  by (induction xs arbitrary: acc) auto

lemma distinct_array_from_set: "distinct (array_from_set xs)"
  by (simp add: array_from_set_def distinct_set_add_all)

lemma set_array_from_set: "set (array_from_set xs) = set xs"
  by (simp add: array_from_set_def set_set_add_all)

lemma map_filter_found:
  assumes "\<And>i. i \<in> set ids \<Longrightarrow> \<exists>x. look i = Some x \<and> key x = i"
  shows "map key (List.map_filter look ids) = ids"
  using assms
proof (induction ids)
  case Nil
  then show ?case by simp
next
  case (Cons i ids)
  from Cons.prems [of i] obtain x where x: "look i = Some x" "key x = i" by auto
  have "map key (List.map_filter look ids) = ids"
    using Cons.IH Cons.prems by simp
  with x show ?case by simp
qed

lemma find_by_id:
  assumes "i \<in> set (map (\<lambda>feature. location_id (properties feature)) trees)"
  shows "\<exists>x. find (\<lambda>feature. location_id (properties feature) = i) trees = Some x
            \<and> location_id (properties x) = i"
proof (cases "find (\<lambda>feature. location_id (properties feature) = i) trees")
  case None
  with assms show ?thesis by (auto simp: find_None_iff)
next
  case (Some x)
  then show ?thesis by (auto simp: find_Some_iff)
qed

lemma ids_unique_trees:
  "map (\<lambda>feature. location_id (properties feature)) (unique_trees trees)
     = array_from_set (map (\<lambda>feature. location_id (properties feature)) trees)"
  unfolding unique_trees_def
  by (rule map_filter_found) (simp only: set_array_from_set find_by_id)

lemma unique_trees_once:
  assumes "f \<in> set trees"
  shows "length (filter (\<lambda>g. location_id (properties g) = location_id (properties f)) (unique_trees trees)) = 1"
proof -
  let ?lid = "\<lambda>feature. location_id (properties feature)"
  let ?ids = "map ?lid (unique_trees trees)"
  have d: "distinct ?ids" by (simp only: ids_unique_trees distinct_array_from_set)
  have m: "?lid f \<in> set ?ids" using assms by (simp only: ids_unique_trees set_array_from_set) simp
  have "length (filter (\<lambda>g. ?lid g = ?lid f) (unique_trees trees))
          = length (filter (\<lambda>j. j = ?lid f) ?ids)"
    by (simp add: filter_map comp_def)
  also have "\<dots> = card ({j. j = ?lid f} \<inter> set ?ids)"
    using d by (rule distinct_length_filter)
  also have "{j. j = ?lid f} \<inter> set ?ids = {?lid f}" using m by auto
  finally show ?thesis by simp
qed

subsection \<open>The groups object\<close>

lemma push_group_keys:
  assumes "push_group c g k = Inr g'"
  shows "map fst g' = (if k \<in> set (map fst g) then map fst g else map fst g @ [k])"
proof -
  have "map fst (map (\<lambda>(k', ms). if k' = k then (k', ms @ [c]) else (k', ms)) g) = map fst g"
    by (induction g) auto
  with assms show ?thesis
    by (auto simp: push_group_def split: if_splits)
qed

lemma push_group_total:
  assumes "push_group c g k = Inr g'" and "distinct (map fst g)"
  shows "mset (concat (map snd g')) = mset (concat (map snd g)) + {#c#}"
proof (cases "k \<in> fst ` set g")
  case False
  with assms show ?thesis by (auto simp: push_group_def split: if_splits)
next
  case True
  have "k \<in> fst ` set g \<Longrightarrow> distinct (map fst g) \<Longrightarrow>
        mset (concat (map snd (map (\<lambda>(k', ms). if k' = k then (k', ms @ [c]) else (k', ms)) g)))
          = mset (concat (map snd g)) + {#c#}"
  proof (induction g)
    case Nil
    then show ?case by simp
  next
    case (Cons p g)
    obtain k' ms where p: "p = (k', ms)" by (cases p)
    show ?case
    proof (cases "k' = k")
      case True
      with Cons.prems p have "k \<notin> fst ` set g" by auto
      then have "map (\<lambda>(k', ms). if k' = k then (k', ms @ [c]) else (k', ms)) g = g"
        by (induction g) auto
      with True p show ?thesis by simp
    next
      case False
      with Cons.prems p have "k \<in> fst ` set g" "distinct (map fst g)" by auto
      with Cons.IH False p show ?thesis by simp
    qed
  qed
  with True assms show ?thesis by (simp add: push_group_def)
qed

lemma map_of_absent: "k \<notin> fst ` set g \<Longrightarrow> map_of g k = None"
  by (simp add: map_of_eq_None_iff)

lemma members_update_general:
  "members (map (\<lambda>(k', ms). if k' = k0 then (k', ms @ [c]) else (k', ms)) g) k
     = (if k = k0 \<and> k0 \<in> fst ` set g then members g k @ [c] else members g k)"
proof (induction g)
  case Nil
  then show ?case by (simp add: members_def)
next
  case (Cons p g)
  obtain k' ms where p: "p = (k', ms)" by (cases p)
  show ?case
  proof (cases "k = k'")
    case True
    with p show ?thesis by (simp add: members_def)
  next
    case False
    with p have l: "members (p # g) k = members g k"
      and r: "members (map (\<lambda>(k', ms). if k' = k0 then (k', ms @ [c]) else (k', ms)) (p # g)) k
            = members (map (\<lambda>(k', ms). if k' = k0 then (k', ms @ [c]) else (k', ms)) g) k"
      by (auto simp add: members_def)
    from False p have e: "(k = k0 \<and> k0 \<in> fst ` set (p # g)) = (k = k0 \<and> k0 \<in> fst ` set g)"
      by auto
    show ?thesis by (simp only: r Cons.IH l e)
  qed
qed

lemma members_update:
  "k0 \<in> fst ` set g \<Longrightarrow>
   members (map (\<lambda>(k', ms). if k' = k0 then (k', ms @ [c]) else (k', ms)) g) k
     = (if k = k0 then members g k @ [c] else members g k)"
  by (simp add: members_update_general)

lemma members_new:
  assumes "k0 \<notin> fst ` set g"
  shows "members (g @ [(k0, [c])]) k = (if k = k0 then members g k @ [c] else members g k)"
proof (cases "k = k0")
  case True
  with assms show ?thesis
    by (simp add: members_def map_of_append map_add_def map_of_absent)
next
  case False
  then show ?thesis
    by (simp add: members_def map_of_append map_add_def split: option.splits)
qed

lemma push_group_members:
  assumes "push_group c g k0 = Inr g'"
  shows "members g' k = (if k = k0 then members g k @ [c] else members g k)"
proof (cases "k0 \<in> fst ` set g")
  case True
  with assms have "g' = map (\<lambda>(k', ms). if k' = k0 then (k', ms @ [c]) else (k', ms)) g"
    by (simp add: push_group_def)
  then show ?thesis using members_update [OF True, of c k] by simp
next
  case False
  with assms have "g' = g @ [(k0, [c])]"
    by (simp add: push_group_def split: if_splits)
  then show ?thesis using members_new [OF False, of c k] by simp
qed

lemma push_group_distinct:
  assumes "push_group c g k = Inr g'" and "distinct (map fst g)"
  shows "distinct (map fst g')"
  using assms by (auto simp: push_group_keys)

lemma pushes_keys:
  "pushes g ps = Inr g' \<Longrightarrow> map fst g' = set_add_all (map fst g) (map fst ps)"
proof (induction ps arbitrary: g)
  case Nil
  then show ?case by simp
next
  case (Cons p ps)
  obtain k c where p: "p = (k, c)" by (cases p)
  from Cons.prems p obtain g1 where g1: "push_group c g k = Inr g1" "pushes g1 ps = Inr g'"
    by (auto split: sum.splits)
  from Cons.IH [OF g1(2)] push_group_keys [OF g1(1)] p show ?case by simp
qed

lemma pushes_distinct:
  "pushes g ps = Inr g' \<Longrightarrow> distinct (map fst g) \<Longrightarrow> distinct (map fst g')"
  by (simp add: pushes_keys distinct_set_add_all)

lemma pushes_members:
  "pushes g ps = Inr g' \<Longrightarrow> members g' k = members g k @ map snd (filter (\<lambda>p. fst p = k) ps)"
proof (induction ps arbitrary: g)
  case Nil
  then show ?case by simp
next
  case (Cons p ps)
  obtain k0 c where p: "p = (k0, c)" by (cases p)
  from Cons.prems p obtain g1 where g1: "push_group c g k0 = Inr g1" "pushes g1 ps = Inr g'"
    by (auto split: sum.splits)
  from Cons.IH [OF g1(2)] push_group_members [OF g1(1), of k] p show ?case by simp
qed

lemma pushes_total:
  "pushes g ps = Inr g' \<Longrightarrow> distinct (map fst g) \<Longrightarrow>
   mset (concat (map snd g')) = mset (concat (map snd g)) + mset (map snd ps)"
proof (induction ps arbitrary: g)
  case Nil
  then show ?case by simp
next
  case (Cons p ps)
  obtain k0 c where p: "p = (k0, c)" by (cases p)
  from Cons.prems p obtain g1 where g1: "push_group c g k0 = Inr g1" "pushes g1 ps = Inr g'"
    by (auto split: sum.splits)
  have d1: "distinct (map fst g1)" using g1(1) Cons.prems(2) by (rule push_group_distinct)
  from Cons.IH [OF g1(2) d1] push_group_total [OF g1(1) Cons.prems(2)] p show ?case by simp
qed

lemma pushes_append:
  "pushes g (ps @ qs) = (case pushes g ps of Inl e \<Rightarrow> Inl e | Inr g1 \<Rightarrow> pushes g1 qs)"
  by (induction ps arbitrary: g) (auto split: sum.splits)

lemma group_features_pushes: "group_features c g fs = pushes g (named c fs)"
  by (induction fs arbitrary: g) (auto simp: named_def split: sum.splits)

lemma group_rendered_pushes:
  "group_rendered m g items = Inr g' \<Longrightarrow> pushes g (arrivals_of m items) = Inr g'"
proof (induction items arbitrary: g)
  case Nil
  then show ?case by (simp add: arrivals_of_def)
next
  case (Cons c items)
  from Cons.prems obtain fs g1 where
    fs: "features_of m c = Inr fs" and g1: "group_features c g fs = Inr g1"
    and rest: "group_rendered m g1 items = Inr g'"
    by (auto split: sum.splits)
  have "arrivals_of m (c # items) = named c fs @ arrivals_of m items"
    using fs by (simp add: arrivals_of_def)
  with Cons.IH [OF rest] g1 show ?case
    by (simp add: pushes_append group_features_pushes)
qed

lemma visible_summary_pushes:
  assumes "visible_summary m = Inr summary"
  obtains g where "pushes [] (arrivals m) = Inr g" and "summary = sort_by_length (Object_entries g)"
  using assms
  by (auto simp: visible_summary_def arrivals_def Let_def split: sum.splits
           dest: group_rendered_pushes)

lemma Object_entries_plain:
  assumes "\<forall>name \<in> fst ` set g. array_index name = None"
  shows "Object_entries g = g"
proof -
  have a: "filter (\<lambda>(k, members). array_index k \<noteq> None) g = []"
    using assms by (auto simp: filter_empty_conv)
  have b: "filter (\<lambda>(k, members). array_index k = None) g = g"
    using assms by (auto simp: filter_id_conv)
  show ?thesis by (simp only: Object_entries_def a b sort_key_simps append_Nil)
qed

lemma mset_Object_entries: "mset (Object_entries g) = mset g"
proof -
  have "mset (filter (\<lambda>(k, members). array_index k \<noteq> None) g)
          + mset (filter (\<lambda>(k, members). array_index k = None) g) = mset g"
    by (induction g) auto
  then show ?thesis by (simp add: Object_entries_def)
qed

lemma mset_sort_by_length: "mset (sort_by_length entries) = mset entries"
  by (simp add: sort_by_length_def)

lemma mset_concat_snd: "mset (concat (map snd xs)) = (\<Sum>x\<in>#mset xs. mset (snd x))"
  by (induction xs) auto

lemma group_size:
  assumes "pushes [] ps = Inr g" and "(name, ms) \<in> set g"
  shows "ms = map snd (filter (\<lambda>p. fst p = name) ps)"
proof -
  have "distinct (map fst g)" using assms(1) by (rule pushes_distinct) simp
  with assms(2) have "map_of g name = Some ms" by simp
  then have "members g name = ms" by (simp add: members_def)
  with pushes_members [OF assms(1), of name] show ?thesis by (simp add: members_def)
qed

lemma arrivals_of_append: "arrivals_of m (xs @ ys) = arrivals_of m xs @ arrivals_of m ys"
  by (simp add: arrivals_of_def)

lemma arrivals_of_points: "map snd (arrivals_of m (map Point ts)) = map Point ts"
  by (induction ts) (simp_all add: arrivals_of_def features_of_def named_def)

lemma arrivals_of_clusters: "filter (point_with_id i) (map snd (arrivals_of m (map Cluster cs))) = []"
  by (auto simp: filter_empty_conv arrivals_of_def named_def point_with_id_def split: sum.splits)

lemma point_members_arrivals:
  "filter (point_with_id i) (map snd (arrivals m))
     = map Point (filter (\<lambda>g. location_id (properties g) = i) (unique_trees (rendered_points m)))"
proof -
  have "filter (point_with_id i) (map Point ts) = map Point (filter (\<lambda>g. location_id (properties g) = i) ts)" for ts
    by (induction ts) (simp_all add: point_with_id_def)
  then show ?thesis
    by (simp add: arrivals_def arrivals_of_append arrivals_of_points arrivals_of_clusters)
qed

subsection \<open>Visibility aggregator\<close>

lemmas summary_eval = visible_summary_def unique_trees_def array_from_set_def
  features_of_def getClusterFeatures_def push_group_def object_prototype_keys_def
  Object_entries_def sort_by_length_def array_index_def is_digit_def digits_value_def

lemmas arrivals_eval = arrivals_def arrivals_of_def named_def unique_trees_def array_from_set_def
  features_of_def getClusterFeatures_def

text \<open>
  Claim C6, as the code has it. The standalone points are deduplicated by
  \<^verbatim>\<open>location_id\<close> before they are grouped: in every summary produced, each
  \<^verbatim>\<open>location_id\<close> that the point query returned, however often, is the id of exactly one
  standalone point among the members of all groups.
\<close>

theorem points_counted_once:
  assumes "visible_summary m = Inr summary" and "f \<in> set (rendered_points m)"
  shows "length (filter (point_with_id (location_id (properties f))) (concat (map snd summary))) = 1"
proof -
  let ?P = "point_with_id (location_id (properties f))"
  from assms(1) obtain g where g: "pushes [] (arrivals m) = Inr g"
    and summary: "summary = sort_by_length (Object_entries g)"
    by (rule visible_summary_pushes)
  have "mset summary = mset g"
    by (simp only: summary mset_sort_by_length mset_Object_entries)
  then have "mset (concat (map snd summary)) = mset (concat (map snd g))"
    by (simp only: mset_concat_snd)
  also have "\<dots> = mset (map snd (arrivals m))"
    using pushes_total [OF g] by simp
  finally have "mset (filter ?P (concat (map snd summary))) = mset (filter ?P (map snd (arrivals m)))"
    by (simp only: mset_filter)
  then have "length (filter ?P (concat (map snd summary))) = length (filter ?P (map snd (arrivals m)))"
    by (rule mset_eq_length)
  also have "\<dots> = length (filter (\<lambda>g. location_id (properties g) = location_id (properties f))
                        (unique_trees (rendered_points m)))"
    by (simp only: point_members_arrivals length_map)
  also have "\<dots> = 1" using assms(2) by (rule unique_trees_once)
  finally show ?thesis .
qed

theorem points_counted_once_witness:
  "visible_summary duplicate_map = Inr [(''Oak'', [Point oak1]), (''Maple'', [Point maple3])]
   \<and> rendered_points duplicate_map = [oak1, maple3, oak1]
   \<and> length (filter (point_with_id 1)
        (concat (map snd [(''Oak'', [Point oak1]), (''Maple'', [Point maple3])]))) = 1"
proof -
  have a: "visible_summary duplicate_map = Inr [(''Oak'', [Point oak1]), (''Maple'', [Point maple3])]"
    by (simp add: duplicate_map_def summary_eval oak1_def maple3_def)
  have b: "rendered_points duplicate_map = [oak1, maple3, oak1]"
    by (simp add: duplicate_map_def)
  have c: "oak1 \<in> set (rendered_points duplicate_map)"
    by (simp add: b)
  have d: "location_id (properties oak1) = 1"
    by (simp add: oak1_def)
  show ?thesis
    using a b points_counted_once [OF a c] by (simp only: d simp_thms)
qed

text \<open>
  Claim C6 as stated fails: when the oak with \<^verbatim>\<open>location_id\<close> 1 is rendered as a
  standalone point and is also a leaf of the rendered cluster 5, the group \<^verbatim>\<open>Oak\<close> gets
  two members for that one tree.
\<close>

theorem cluster_leaf_counted_again_counterexample:
  "visible_summary overlap_map = Inr [(''Oak'', [Point oak1, Cluster 5]), (''Maple'', [Cluster 5])]"
  by (simp add: overlap_map_def summary_eval oak1_def maple3_def)

text \<open>
  Claim C7, as the code has it. Every summary produced is sorted by the number of
  members, descending. When no common name is an array index, the groups with equal
  numbers of members stand in the order in which their names first arrived: for every
  size, the names of the groups of that size are the names that arrived that many times,
  in the order of first arrival.
\<close>

theorem summary_sorted_stable:
  assumes "visible_summary m = Inr summary"
  shows "sorted_wrt (\<lambda>a b. length (snd a) \<ge> length (snd b)) summary
    \<and> ((\<forall>name \<in> fst ` set (arrivals m). array_index name = None) \<longrightarrow>
        (\<forall>n. map fst (filter (\<lambda>(name, ms). length ms = n) summary)
              = filter (\<lambda>name. length (filter (\<lambda>p. fst p = name) (arrivals m)) = n)
                  (array_from_set (map fst (arrivals m)))))"
proof -
  let ?f = "\<lambda>(k, members). - int (length members) :: int"
  from assms obtain g where g: "pushes [] (arrivals m) = Inr g"
    and summary: "summary = sort_by_length (Object_entries g)"
    by (rule visible_summary_pushes)
  have "sorted (map ?f summary)"
    by (simp add: summary sort_by_length_def)
  then have "sorted_wrt (\<lambda>a b. ?f a \<le> ?f b) summary"
    by (simp add: sorted_map)
  then have sorted: "sorted_wrt (\<lambda>a b. length (snd a) \<ge> length (snd b)) summary"
    by (rule sorted_wrt_mono_rel [rotated]) (auto split: prod.splits)
  have keys: "map fst g = array_from_set (map fst (arrivals m))"
    using pushes_keys [OF g] by (simp add: array_from_set_def)
  have stable: "map fst (filter (\<lambda>(name, ms). length ms = n) summary)
              = filter (\<lambda>name. length (filter (\<lambda>p. fst p = name) (arrivals m)) = n)
                  (array_from_set (map fst (arrivals m)))"
    if plain: "\<forall>name \<in> fst ` set (arrivals m). array_index name = None" for n
  proof -
    have "set (map fst g) = set (map fst (arrivals m))"
      by (simp only: keys set_array_from_set)
    with plain have "\<forall>name \<in> fst ` set g. array_index name = None" by simp
    then have entries: "Object_entries g = g" by (rule Object_entries_plain)
    have "filter (\<lambda>(name, ms). length ms = n) summary = filter (\<lambda>y. ?f y = - int n) summary"
      by (rule filter_cong) auto
    also have "\<dots> = filter (\<lambda>y. ?f y = - int n) g"
      by (simp only: summary entries sort_by_length_def sort_key_stable)
    also have "\<dots> = filter ((\<lambda>name. length (filter (\<lambda>p. fst p = name) (arrivals m)) = n) \<circ> fst) g"
      by (rule filter_cong) (auto dest: group_size [OF g])
    finally show ?thesis
      by (simp only: filter_map keys [symmetric])
  qed
  from sorted stable show ?thesis by blast
qed

theorem summary_sorted_stable_witness:
  "visible_summary scenario_map
      = Inr [(''Oak'', [Cluster 5, Cluster 5]), (''Maple'', [Point maple3]), (''Elm'', [Point elm4])]
   \<and> map fst (arrivals scenario_map) = [''Maple'', ''Elm'', ''Oak'', ''Oak'']
   \<and> array_index ''Maple'' = None \<and> array_index ''Elm'' = None \<and> array_index ''Oak'' = None
   \<and> sorted_wrt (\<lambda>a b. length (snd a) \<ge> length (snd b))
        [(''Oak'', [Cluster 5, Cluster 5]), (''Maple'', [Point maple3]), (''Elm'', [Point elm4])]
   \<and> map fst (filter (\<lambda>(name, ms). length ms = 1)
        [(''Oak'', [Cluster 5, Cluster 5]), (''Maple'', [Point maple3]), (''Elm'', [Point elm4])])
       = [''Maple'', ''Elm'']"
proof -
  let ?S = "[(''Oak'', [Cluster 5, Cluster 5]), (''Maple'', [Point maple3]), (''Elm'', [Point elm4])]"
  have a: "visible_summary scenario_map = Inr ?S"
    by (simp add: scenario_map_def summary_eval oak1_def oak2_def maple3_def elm4_def)
  have b: "map fst (arrivals scenario_map) = [''Maple'', ''Elm'', ''Oak'', ''Oak'']"
    by (simp add: scenario_map_def arrivals_eval oak1_def oak2_def maple3_def elm4_def)
  have c: "array_index ''Maple'' = None \<and> array_index ''Elm'' = None \<and> array_index ''Oak'' = None"
    by (simp add: array_index_def is_digit_def)
  have d: "\<forall>name \<in> fst ` set (arrivals scenario_map). array_index name = None"
  proof -
    have "fst ` set (arrivals scenario_map) = set (map fst (arrivals scenario_map))" by simp
    also have "\<dots> = {''Maple'', ''Elm'', ''Oak''}" by (simp only: b) auto
    finally show ?thesis using c by simp
  qed
  have e: "filter (\<lambda>name. length (filter (\<lambda>p. fst p = name) (arrivals scenario_map)) = 1)
             (array_from_set (map fst (arrivals scenario_map))) = [''Maple'', ''Elm'']"
    unfolding b
    by (simp add: array_from_set_def scenario_map_def arrivals_eval oak1_def oak2_def maple3_def elm4_def)
  from summary_sorted_stable [OF a] d e
  have "sorted_wrt (\<lambda>a b. length (snd a) \<ge> length (snd b)) ?S
      \<and> map fst (filter (\<lambda>(name, ms). length ms = 1) ?S) = [''Maple'', ''Elm'']"
    by simp
  with a b c show ?thesis by simp
qed

text \<open>
  Claim C7 as stated fails for names that are array indices: the name \<^verbatim>\<open>10\<close> arrives
  before the name \<^verbatim>\<open>9\<close>, both groups have one member, and the summary lists \<^verbatim>\<open>9\<close>
  first, because \<^verbatim>\<open>Object.entries\<close> enumerates such names in numeric order.
\<close>

theorem numeric_names_reordered_counterexample:
  "visible_summary numbered_map
      = Inr [(''9'', [Point (numbered ''9'' 2)]), (''10'', [Point (numbered ''10'' 1)])]
   \<and> map fst (arrivals numbered_map) = [''10'', ''9'']"
  by (simp add: numbered_map_def summary_eval arrivals_eval numbered_def)

subsection \<open>Highlight filters\<close>

lemma clusterIdsToHighlight_result:
  "clusterIdsToHighlight m treeName acc clusters = Inr ids \<Longrightarrow>
   ids = acc @ filter (has_leaf_named m treeName) clusters"
proof (induction clusters arbitrary: acc)
  case Nil
  then show ?case by simp
next
  case (Cons c clusters)
  from Cons.prems obtain leaves where leaves: "getClusterFeatures m c = Inr leaves"
    and rest: "clusterIdsToHighlight m treeName
                 (if list_ex (\<lambda>leaf. common_name (properties leaf) = treeName) leaves
                  then acc @ [c] else acc) clusters = Inr ids"
    by (auto split: sum.splits)
  from Cons.IH [OF rest] leaves show ?case
    by (simp add: has_leaf_named_def)
qed

lemma has_leaf_named_iff:
  "has_leaf_named m treeName clusterId \<longleftrightarrow>
     (\<exists>leaves. getClusterFeatures m clusterId = Inr leaves
        \<and> (\<exists>leaf \<in> set leaves. common_name (properties leaf) = treeName))"
  by (cases "getClusterFeatures m clusterId") (auto simp: has_leaf_named_def list_ex_iff)

lemma highlightTree_result:
  assumes "highlightTree treeName m = Inr m'"
  shows "m' = m\<lparr>highlighted_point := [Str treeName],
               highlighted_cluster := map Num (filter (has_leaf_named m treeName) (rendered_clusters m))\<rparr>"
proof -
  from assms obtain ids where ids: "clusterIdsToHighlight m treeName [] (rendered_clusters m) = Inr ids"
    and m': "m' = m\<lparr>highlighted_point := [Str treeName], highlighted_cluster := map Num ids\<rparr>"
    by (auto simp: highlightTree_def split: sum.splits)
  from clusterIdsToHighlight_result [OF ids] m' show ?thesis by simp
qed

lemmas highlight_eval = highlightTree_def getClusterFeatures_def

text \<open>
  Claim C5, as the code has it. When the highlight effect runs for a selected name (on
  the selection of the name, and again from the debounced handler of \<^verbatim>\<open>moveend\<close> and
  \<^verbatim>\<open>zoomend\<close>), either a lookup of cluster leaves fails and the map is left as it was,
  or both filters are set together: the point filter passes exactly the features with
  that common name, and the cluster filter passes exactly the rendered clusters whose
  leaves include a feature with that common name. What the map renders is not touched.
\<close>

theorem highlight_filters:
  assumes "highlightedTree s = Some treeName" and "treeName \<noteq> []"
  shows "(isl (highlightTree treeName (mapRef s)) \<longrightarrow> mapRef (highlight_effect s) = mapRef s)
    \<and> (\<not> isl (highlightTree treeName (mapRef s)) \<longrightarrow>
         (\<forall>feature. point_highlighted (mapRef (highlight_effect s)) feature
              \<longleftrightarrow> common_name (properties feature) = treeName)
       \<and> (\<forall>clusterId. cluster_highlighted (mapRef (highlight_effect s)) clusterId
              \<longleftrightarrow> clusterId \<in> set (rendered_clusters (mapRef s))
                  \<and> (\<exists>leaves. getClusterFeatures (mapRef s) clusterId = Inr leaves
                       \<and> (\<exists>leaf \<in> set leaves. common_name (properties leaf) = treeName)))
       \<and> rendered_points (mapRef (highlight_effect s)) = rendered_points (mapRef s)
       \<and> rendered_clusters (mapRef (highlight_effect s)) = rendered_clusters (mapRef s)
       \<and> cluster_leaves (mapRef (highlight_effect s)) = cluster_leaves (mapRef s))"
proof (cases "highlightTree treeName (mapRef s)")
  case (Inl e)
  with assms show ?thesis by (simp add: highlight_effect_def)
next
  case (Inr m')
  with assms have eff: "mapRef (highlight_effect s) = m'" by (simp add: highlight_effect_def)
  note m' = highlightTree_result [OF Inr]
  have p: "point_highlighted m' feature \<longleftrightarrow> common_name (properties feature) = treeName" for feature
    by (auto simp add: m' point_highlighted_def filter_in_def)
  have c: "cluster_highlighted m' clusterId
              \<longleftrightarrow> clusterId \<in> set (rendered_clusters (mapRef s))
                  \<and> (\<exists>leaves. getClusterFeatures (mapRef s) clusterId = Inr leaves
                       \<and> (\<exists>leaf \<in> set leaves. common_name (properties leaf) = treeName))" for clusterId
  proof -
    have "cluster_highlighted m' clusterId
            \<longleftrightarrow> clusterId \<in> set (filter (has_leaf_named (mapRef s) treeName) (rendered_clusters (mapRef s)))"
      by (auto simp add: m' cluster_highlighted_def filter_in_def)
    then show ?thesis by (simp add: has_leaf_named_iff)
  qed
  have r: "rendered_points m' = rendered_points (mapRef s)
       \<and> rendered_clusters m' = rendered_clusters (mapRef s)
       \<and> cluster_leaves m' = cluster_leaves (mapRef s)"
    by (simp add: m')
  from Inr p c r show ?thesis by (simp only: eff) simp
qed

theorem highlight_filters_witness:
  "highlightedTree (handleTreeListClick ''Oak'' scenario_app) = Some ''Oak''
   \<and> \<not> isl (highlightTree ''Oak'' scenario_map)
   \<and> point_highlighted (mapRef (highlight_effect (handleTreeListClick ''Oak'' scenario_app))) oak1
   \<and> \<not> point_highlighted (mapRef (highlight_effect (handleTreeListClick ''Oak'' scenario_app))) maple3
   \<and> cluster_highlighted (mapRef (highlight_effect (handleTreeListClick ''Oak'' scenario_app))) 5
   \<and> isl (highlightTree ''Oak'' (scenario_map\<lparr>cluster_leaves := []\<rparr>))
   \<and> mapRef (highlight_effect (handleTreeListClick ''Oak'' (scenario_app\<lparr>mapRef := scenario_map\<lparr>cluster_leaves := []\<rparr>\<rparr>)))
        = scenario_map\<lparr>cluster_leaves := []\<rparr>"
proof -
  let ?s = "handleTreeListClick ''Oak'' scenario_app"
  let ?bad = "scenario_map\<lparr>cluster_leaves := []\<rparr>"
  let ?t = "handleTreeListClick ''Oak'' (scenario_app\<lparr>mapRef := ?bad\<rparr>)"
  have a: "highlightedTree ?s = Some ''Oak''" "mapRef ?s = scenario_map"
    by (simp_all add: handleTreeListClick_def scenario_app_def app0_def)
  have a': "highlightedTree ?t = Some ''Oak''" "mapRef ?t = ?bad"
    by (simp_all add: handleTreeListClick_def scenario_app_def app0_def)
  have n: "''Oak'' \<noteq> []" by simp
  have b: "\<not> isl (highlightTree ''Oak'' scenario_map)"
    by (simp add: highlight_eval scenario_map_def oak1_def oak2_def)
  have b': "isl (highlightTree ''Oak'' ?bad)"
    by (simp add: highlight_eval scenario_map_def)
  have c: "getClusterFeatures scenario_map 5 = Inr [oak1, oak2]"
    "rendered_clusters scenario_map = [5]"
    "common_name (properties oak1) = ''Oak''" "common_name (properties maple3) \<noteq> ''Oak''"
    by (simp_all add: getClusterFeatures_def scenario_map_def oak1_def maple3_def)
  from highlight_filters [OF a(1) n] b c
  have d: "point_highlighted (mapRef (highlight_effect ?s)) oak1
       \<and> \<not> point_highlighted (mapRef (highlight_effect ?s)) maple3
       \<and> cluster_highlighted (mapRef (highlight_effect ?s)) 5"
    by (simp add: a(2))
  from highlight_filters [OF a'(1) n] b'
  have e: "mapRef (highlight_effect ?t) = ?bad"
    by (simp add: a'(2))
  from a(1) b d b' e show ?thesis by simp
qed

text \<open>
  Claim C5 as stated fails after a change of the feature store: with \<^verbatim>\<open>Maple\<close>
  selected, a maple is added and the map then renders cluster 7, whose leaves include
  a maple; no effect recomputes the cluster filter, which still passes no cluster.
\<close>

theorem store_change_keeps_filters_counterexample:
  "highlightedTree after_add = Some ''Maple''
   \<and> features (treeLocations after_add) = [oak1, oak2, maple3, elm4, treeToFeature maple_row]
   \<and> rendered_clusters (mapRef after_add) = [5, 7]
   \<and> getClusterFeatures (mapRef after_add) 7 = Inr [maple3, treeToFeature maple_row]
   \<and> common_name (properties maple3) = ''Maple''
   \<and> \<not> cluster_highlighted (mapRef after_add) 7"
  by (simp add: after_add_def data_change_listener_def setData_def handleAddTreeSubmit_def
        sendAddLocation_def fetch_json_def response_ok_def highlight_effect_def highlight_eval
        handleTreeListClick_def scenario_app_def scenario_map_def app0_def maple_form_def
        cluster_highlighted_def filter_in_def oak1_def oak2_def maple3_def Let_def)

end
